theory Spec2Isabelle
  imports Main "HOL-Library.Word"
begin

section \<open>The values the event channel carries\<close>

text \<open>
  The module under verification is \<^verbatim>\<open>web/src/lib/socket.js\<close>: eight observable cells, one
  lazily created socket, ten inbound handlers registered by \<^verbatim>\<open>connect()\<close> and five exported
  operations.  The handlers receive whatever the channel decoded, so the model has a type of
  JavaScript values: \<^verbatim>\<open>undefined\<close> (an event without payload, a property that is absent),
  the JSON values, and nothing else.  A string is its sequence of UTF-16 code units, which
  is what \<^verbatim>\<open>.slice\<close> and \<^verbatim>\<open>.length\<close> count.  An object is the list of its own properties
  in the order the host enumerates them.

  The module never calculates with a number it received: it tests its truthiness and it
  renders it.  So a number is represented by its rendering, the string that
  \<^verbatim>\<open>String(n)\<close> returns (\<^verbatim>\<open>42\<close>, \<^verbatim>\<open>-1.5\<close>, \<^verbatim>\<open>1e+21\<close>, \<^verbatim>\<open>NaN\<close>, \<^verbatim>\<open>Infinity\<close>).  Distinct numbers
  have distinct renderings, but for the two zeros, which render as \<^verbatim>\<open>0\<close> and which no
  operation of the module tells apart.  This covers every number, integral or not, of
  any size.
\<close>

type_synonym jstring = "16 word list"

definition ascii :: "string \<Rightarrow> jstring" where
  "ascii cs = map of_char cs"

datatype jsval =
    JUndefined
  | JNull
  | JBool bool
  | JNum jstring
  | JStr jstring
  | JArr "jsval list"
  | JObj "(jstring \<times> jsval) list"

datatype error = TypeError

text \<open>\<^verbatim>\<open>!!v\<close>: the falsy values are undefined, null, false, the zeros, NaN and the empty
  string.\<close>

fun truthy :: "jsval \<Rightarrow> bool" where
  "truthy JUndefined = False"
| "truthy JNull = False"
| "truthy (JBool b) = b"
| "truthy (JNum r) = (r \<noteq> ascii ''0'' \<and> r \<noteq> ascii ''NaN'')"
| "truthy (JStr s) = (s \<noteq> [])"
| "truthy (JArr xs) = True"
| "truthy (JObj ps) = True"

text \<open>\<^verbatim>\<open>a || b\<close> with both operands already evaluated (the right operands in the module are
  literals or property reads that cannot throw once the left one has been read).\<close>

definition or_else :: "jsval \<Rightarrow> jsval \<Rightarrow> jsval" where
  "or_else a b = (if truthy a then a else b)"

text \<open>Reading a property of undefined or null throws a TypeError; this is the test a handler
  passes or fails at its first \<^verbatim>\<open>data.x\<close> and at the destructuring \<^verbatim>\<open>({ tool, args })\<close>.\<close>

fun nullish :: "jsval \<Rightarrow> bool" where
  "nullish JUndefined = True"
| "nullish JNull = True"
| "nullish v = False"

text \<open>\<^verbatim>\<open>v.k\<close> for a value that is not nullish and a name \<open>k\<close> that no built-in prototype
  defines (every name the module reads: text, type, payload, workflow, project, status, message,
  msg, level, tool, args, result, phase, step, total, description, error): an own property
  of an object, undefined otherwise.\<close>

fun get :: "jsval \<Rightarrow> jstring \<Rightarrow> jsval" where
  "get (JObj ps) k = (case map_of ps k of None \<Rightarrow> JUndefined | Some v \<Rightarrow> v)"
| "get v k = JUndefined"

subsection \<open>Rendering strings\<close>

text \<open>The decimal digits of a natural number: the key of an array element or of a code unit
  of a string (an index below \<open>2^32 - 1\<close>).\<close>

fun digits :: "nat \<Rightarrow> jstring" where
  "digits n = (if n < 10 then [0x30 + of_nat n]
               else digits (n div 10) @ [0x30 + of_nat (n mod 10)])"

declare digits.simps [simp del]

definition hexdigit :: "nat \<Rightarrow> 16 word" where
  "hexdigit n = (if n < 10 then 0x30 + of_nat n else 0x57 + of_nat n)"

definition unicode_escape :: "16 word \<Rightarrow> jstring" where
  "unicode_escape c = (let n = unat c in
     [0x5C, 0x75, hexdigit (n div 4096 mod 16), hexdigit (n div 256 mod 16),
      hexdigit (n div 16 mod 16), hexdigit (n mod 16)])"

definition is_lead :: "16 word \<Rightarrow> bool" where
  "is_lead c = (0xD800 \<le> c \<and> c \<le> 0xDBFF)"

definition is_trail :: "16 word \<Rightarrow> bool" where
  "is_trail c = (0xDC00 \<le> c \<and> c \<le> 0xDFFF)"

text \<open>One code unit of \<^verbatim>\<open>JSON.stringify\<close>'s string quoting, outside a surrogate pair.\<close>

definition escape_unit :: "16 word \<Rightarrow> jstring" where
  "escape_unit c =
     (if c = 0x08 then [0x5C, 0x62]
      else if c = 0x09 then [0x5C, 0x74]
      else if c = 0x0A then [0x5C, 0x6E]
      else if c = 0x0C then [0x5C, 0x66]
      else if c = 0x0D then [0x5C, 0x72]
      else if c = 0x22 then [0x5C, 0x22]
      else if c = 0x5C then [0x5C, 0x5C]
      else if c < 0x20 \<or> is_lead c \<or> is_trail c then unicode_escape c
      else [c])"

fun quote_units :: "jstring \<Rightarrow> jstring" where
  "quote_units [] = []"
| "quote_units [c] = escape_unit c"
| "quote_units (c # d # cs) =
     (if is_lead c \<and> is_trail d then c # d # quote_units cs
      else escape_unit c @ quote_units (d # cs))"

definition quote :: "jstring \<Rightarrow> jstring" where
  "quote s = 0x22 # quote_units s @ [0x22]"

fun join_with :: "'a \<Rightarrow> 'a list list \<Rightarrow> 'a list" where
  "join_with sep [] = []"
| "join_with sep [x] = x"
| "join_with sep (x # y # ys) = x @ sep # join_with sep (y # ys)"

subsection \<open>\<^verbatim>\<open>String(v)\<close> and template substitution\<close>

text \<open>
  \<^verbatim>\<open>`${v}`\<close> and \<^verbatim>\<open>String(v)\<close> apply ToString.  An array joins its elements with commas,
  undefined and null elements rendering as nothing.  A decoded object has no callable
  property, so one with an own \<^verbatim>\<open>toString\<close> property cannot be converted (TypeError);
  every other object renders as \<^verbatim>\<open>[object Object]\<close>.
\<close>

fun ToString :: "jsval \<Rightarrow> error + jstring"
  and join_elems :: "jsval list \<Rightarrow> error + jstring" where
  "ToString JUndefined = Inr (ascii ''undefined'')"
| "ToString JNull = Inr (ascii ''null'')"
| "ToString (JBool b) = Inr (if b then ascii ''true'' else ascii ''false'')"
| "ToString (JNum r) = Inr r"
| "ToString (JStr s) = Inr s"
| "ToString (JArr xs) = join_elems xs"
| "ToString (JObj ps) =
     (if ascii ''toString'' \<in> fst ` set ps then Inl TypeError
      else Inr (ascii ''[object Object]''))"
| "join_elems [] = Inr []"
| "join_elems (x # xs) =
     (case (if nullish x then Inr [] else ToString x) of
        Inl e \<Rightarrow> Inl e
      | Inr a \<Rightarrow>
          (if xs = [] then Inr a
           else (case join_elems xs of
                   Inl e \<Rightarrow> Inl e
                 | Inr b \<Rightarrow> Inr (a @ 0x2C # b))))"

subsection \<open>\<^verbatim>\<open>JSON.stringify(v)\<close>\<close>

text \<open>The result is a string or undefined (\<open>None\<close>): undefined at top level, \<^verbatim>\<open>null\<close> for an
  undefined array element, and an undefined property is left out.  A finite number is
  rendered as \<^verbatim>\<open>String\<close> renders it; NaN and the infinities give \<^verbatim>\<open>null\<close>.\<close>

fun JSON_stringify :: "jsval \<Rightarrow> jstring option"
  and stringify_elems :: "jsval list \<Rightarrow> jstring list"
  and stringify_props :: "(jstring \<times> jsval) list \<Rightarrow> jstring list" where
  "JSON_stringify JUndefined = None"
| "JSON_stringify JNull = Some (ascii ''null'')"
| "JSON_stringify (JBool b) = Some (if b then ascii ''true'' else ascii ''false'')"
| "JSON_stringify (JNum r) =
     Some (if r = ascii ''NaN'' \<or> r = ascii ''Infinity'' \<or> r = ascii ''-Infinity''
           then ascii ''null'' else r)"
| "JSON_stringify (JStr s) = Some (quote s)"
| "JSON_stringify (JArr xs) = Some (0x5B # join_with 0x2C (stringify_elems xs) @ [0x5D])"
| "JSON_stringify (JObj ps) = Some (0x7B # join_with 0x2C (stringify_props ps) @ [0x7D])"
| "stringify_elems [] = []"
| "stringify_elems (x # xs) =
     (case JSON_stringify x of None \<Rightarrow> ascii ''null'' | Some j \<Rightarrow> j) # stringify_elems xs"
| "stringify_props [] = []"
| "stringify_props (p # ps) =
     (case JSON_stringify (snd p) of
        None \<Rightarrow> stringify_props ps
      | Some j \<Rightarrow> (quote (fst p) @ 0x3A # j) # stringify_props ps)"

subsection \<open>Object literals with a spread\<close>

text \<open>
  \<^verbatim>\<open>{ command, ...data }\<close> defines \<^verbatim>\<open>command\<close> and then copies the own enumerable properties
  of \<^verbatim>\<open>data\<close>: those of an object, the indexed elements of an array, the indexed code
  units of a string, none for any other value.  Defining a property that exists replaces
  its value in place; a new array-index key (a canonical decimal below \<open>2^32 - 1\<close>) goes
  among the index keys in ascending order, any other new key goes last.
\<close>

definition is_digit :: "16 word \<Rightarrow> bool" where
  "is_digit c = (0x30 \<le> c \<and> c \<le> 0x39)"

definition decimal_value :: "jstring \<Rightarrow> nat" where
  "decimal_value k = foldl (\<lambda>n c. 10 * n + (unat c - 48)) 0 k"

definition array_index :: "jstring \<Rightarrow> nat option" where
  "array_index k =
     (if k \<noteq> [] \<and> list_all is_digit k \<and> (length k = 1 \<or> hd k \<noteq> 0x30)
         \<and> decimal_value k < 4294967295
      then Some (decimal_value k) else None)"

definition index_below :: "nat \<Rightarrow> jstring \<times> jsval \<Rightarrow> bool" where
  "index_below i p = (case array_index (fst p) of None \<Rightarrow> False | Some j \<Rightarrow> j < i)"

definition define_property :: "jstring \<Rightarrow> jsval \<Rightarrow> (jstring \<times> jsval) list \<Rightarrow> (jstring \<times> jsval) list" where
  "define_property k v ps =
     (if k \<in> fst ` set ps then map (\<lambda>p. if fst p = k then (k, v) else p) ps
      else (case array_index k of
              None \<Rightarrow> ps @ [(k, v)]
            | Some i \<Rightarrow> takeWhile (index_below i) ps @ (k, v) # dropWhile (index_below i) ps))"

fun own_props :: "jsval \<Rightarrow> (jstring \<times> jsval) list" where
  "own_props (JObj ps) = ps"
| "own_props (JArr xs) = zip (map digits [0..<length xs]) xs"
| "own_props (JStr s) = zip (map digits [0..<length s]) (map (\<lambda>c. JStr [c]) s)"
| "own_props v = []"

definition spread :: "(jstring \<times> jsval) list \<Rightarrow> jsval \<Rightarrow> (jstring \<times> jsval) list" where
  "spread ps src = foldl (\<lambda>acc p. define_property (fst p) (snd p) acc) ps (own_props src)"

section \<open>The session state store\<close>

text \<open>
  The eight writable cells, the module variables \<^verbatim>\<open>_socket\<close> and \<^verbatim>\<open>_msgId\<close>.  The socket
  is null (\<open>None\<close>) or the instance \<^verbatim>\<open>io(...)\<close> returned, which the model represents by the
  events emitted on it so far.  \<^verbatim>\<open>Date.now()\<close> is an input: every operation that reads the
  clock takes the reading as its first argument.

  The counter \<^verbatim>\<open>_msgId\<close> is a JavaScript number, a double.  It starts at 0 and only
  \<^verbatim>\<open>++_msgId\<close> changes it, so its values are integers from 0 to \<open>2^53 = 9007199254740992\<close>:
  below \<open>2^53\<close> the increment is exact, and at \<open>2^53\<close> the sum \<open>2^53 + 1\<close> is not a double
  and rounds back to \<open>2^53\<close>, where the counter stays.
\<close>

record message =
  msg_id :: nat
  msg_type :: jsval
  msg_text :: jsval
  msg_ts :: nat
  msg_payload :: jsval

record log_entry =
  log_level :: jsval
  log_msg :: jsval
  log_ts :: nat

record status_snapshot =
  st_phase :: jsval
  st_step :: jsval
  st_total :: jsval
  st_description :: jsval
  st_status :: jsval

datatype outbound = Emit jstring jsval

record store =
  socket :: "outbound list option"
  msgId :: nat
  connected :: bool
  messages :: "message list"
  logs :: "log_entry list"
  status :: "status_snapshot option"
  pendingConfirm :: jsval
  pipelineDone :: jsval
  activeWorkflow :: jsval
  activeProject :: jsval

definition init_store :: store where
  "init_store =
     \<lparr>socket = None, msgId = 0, connected = False, messages = [], logs = [], status = None,
      pendingConfirm = JNull, pipelineDone = JNull, activeWorkflow = JNull,
      activeProject = JStr []\<rparr>"

text \<open>The literals of the module that are not ASCII, as code units:
  \<^verbatim>\<open>U+2192 SPACE\<close>, \<^verbatim>\<open>U+2190 SPACE\<close> and the four Russian texts.\<close>

definition call_arrow :: jstring where
  "call_arrow = [0x2192, 0x20]"

definition result_arrow :: jstring where
  "result_arrow = [0x2190, 0x20]"

definition text_connected :: jstring where
  "text_connected =
     [0x421, 0x43E, 0x435, 0x434, 0x438, 0x43D, 0x435, 0x43D, 0x438, 0x435, 0x20,
      0x443, 0x441, 0x442, 0x430, 0x43D, 0x43E, 0x432, 0x43B, 0x435, 0x43D, 0x43E]"

definition text_disconnected :: jstring where
  "text_disconnected =
     [0x421, 0x43E, 0x435, 0x434, 0x438, 0x43D, 0x435, 0x43D, 0x438, 0x435, 0x20,
      0x440, 0x430, 0x437, 0x43E, 0x440, 0x432, 0x430, 0x43D, 0x43E]"

definition text_unknown_error :: jstring where
  "text_unknown_error =
     [0x43D, 0x435, 0x438, 0x437, 0x432, 0x435, 0x441, 0x442, 0x43D, 0x430, 0x44F, 0x20,
      0x43E, 0x448, 0x438, 0x431, 0x43A, 0x430]"

definition text_error_prefix :: jstring where
  "text_error_prefix = [0x41E, 0x448, 0x438, 0x431, 0x43A, 0x430, 0x3A, 0x20]"

text \<open>\<^verbatim>\<open>nextId = () => ++_msgId\<close>: the value of the counter after the increment, which is
  also the value returned.\<close>

definition nextId :: "nat \<Rightarrow> nat" where
  "nextId n = (if n < 9007199254740992 then n + 1 else n)"

text \<open>\<^verbatim>\<open>addMessage(type, text, payload)\<close> appends a message that carries the next id.\<close>

definition addMessage :: "nat \<Rightarrow> jsval \<Rightarrow> jsval \<Rightarrow> jsval \<Rightarrow> store \<Rightarrow> store" where
  "addMessage now type text payload s =
     s\<lparr>msgId := nextId (msgId s),
       messages := messages s @
         [\<lparr>msg_id = nextId (msgId s), msg_type = type, msg_text = text, msg_ts = now,
           msg_payload = payload\<rparr>]\<rparr>"

subsection \<open>Inbound handlers\<close>

definition on_connect :: "nat \<Rightarrow> store \<Rightarrow> store" where
  "on_connect now s =
     addMessage now (JStr (ascii ''system'')) (JStr text_connected) JUndefined
       (s\<lparr>connected := True\<rparr>)"

definition on_disconnect :: "nat \<Rightarrow> store \<Rightarrow> store" where
  "on_disconnect now s =
     addMessage now (JStr (ascii ''system'')) (JStr text_disconnected) JUndefined
       (s\<lparr>connected := False, activeWorkflow := JNull\<rparr>)"

definition on_message :: "nat \<Rightarrow> jsval \<Rightarrow> store \<Rightarrow> error + store" where
  "on_message now data s =
     (if nullish data then Inl TypeError
      else
        let text = or_else (get data (ascii ''text'')) (JStr []);
            type = or_else (get data (ascii ''type'')) (JStr (ascii ''assistant''));
            payload = or_else (get data (ascii ''payload'')) JNull;
            s1 = (if truthy payload \<and> truthy (get payload (ascii ''workflow''))
                  then
                    (let s' = s\<lparr>activeWorkflow := get payload (ascii ''workflow'')\<rparr>
                     in if get payload (ascii ''workflow'') \<noteq> JStr (ascii ''chat'')
                        then s'\<lparr>activeProject :=
                                  or_else (get payload (ascii ''project'')) (JStr [])\<rparr>
                        else s')
                  else s);
            s2 = (if truthy payload
                     \<and> get payload (ascii ''status'') = JStr (ascii ''completed'')
                     \<and> get payload (ascii ''workflow'') \<noteq> JStr (ascii ''chat'')
                  then s1\<lparr>pipelineDone :=
                            JObj [(ascii ''status'', get payload (ascii ''status''))]\<rparr>
                  else s1)
        in Inr (addMessage now type text payload s2))"

definition on_log :: "nat \<Rightarrow> jsval \<Rightarrow> store \<Rightarrow> error + store" where
  "on_log now data s =
     (if nullish data then Inl TypeError
      else
        let msg = or_else (or_else (get data (ascii ''message'')) (get data (ascii ''msg'')))
                    (JStr []);
            level = or_else (get data (ascii ''level'')) (JStr (ascii ''INFO''));
            next = logs s @ [\<lparr>log_level = level, log_msg = msg, log_ts = now\<rparr>]
        in Inr (s\<lparr>logs := (if length next > 500 then drop (length next - 500) next
                             else next)\<rparr>))"

text \<open>The second substitution of the tool-call template: a string is taken as it is,
  anything else is \<^verbatim>\<open>JSON.stringify(args).slice(0, 120)\<close>, and \<^verbatim>\<open>.slice\<close> of undefined throws.\<close>

definition render_args :: "jsval \<Rightarrow> error + jstring" where
  "render_args args =
     (case args of
        JStr a \<Rightarrow> Inr a
      | _ \<Rightarrow> (case JSON_stringify args of
                None \<Rightarrow> Inl TypeError
              | Some j \<Rightarrow> Inr (take 120 j)))"

definition on_tool_call :: "nat \<Rightarrow> jsval \<Rightarrow> store \<Rightarrow> error + store" where
  "on_tool_call now data s =
     (if nullish data then Inl TypeError
      else
        let tool = get data (ascii ''tool''); args = get data (ascii ''args'')
        in (case ToString tool of
              Inl e \<Rightarrow> Inl e
            | Inr t \<Rightarrow>
                (case render_args args of
                   Inl e \<Rightarrow> Inl e
                 | Inr a \<Rightarrow>
                     Inr (s\<lparr>logs := logs s @
                            [\<lparr>log_level = JStr (ascii ''TOOL''),
                              log_msg = JStr (call_arrow @ t @ ascii ''  '' @ a),
                              log_ts = now\<rparr>]\<rparr>))))"

definition on_tool_result :: "nat \<Rightarrow> jsval \<Rightarrow> store \<Rightarrow> error + store" where
  "on_tool_result now data s =
     (if nullish data then Inl TypeError
      else
        let tool = get data (ascii ''tool''); result = get data (ascii ''result'')
        in (case ToString tool of
              Inl e \<Rightarrow> Inl e
            | Inr t \<Rightarrow>
                (case ToString result of
                   Inl e \<Rightarrow> Inl e
                 | Inr r \<Rightarrow>
                     Inr (s\<lparr>logs := logs s @
                            [\<lparr>log_level = JStr (ascii ''TOOL''),
                              log_msg = JStr (result_arrow @ t @ ascii ''  '' @ take 120 r),
                              log_ts = now\<rparr>]\<rparr>))))"

definition on_status :: "jsval \<Rightarrow> store \<Rightarrow> error + store" where
  "on_status data s =
     (if nullish data then Inl TypeError
      else Inr (s\<lparr>status := Some
             \<lparr>st_phase = or_else (get data (ascii ''phase'')) JNull,
              st_step = or_else (get data (ascii ''step'')) (JNum (ascii ''0'')),
              st_total = or_else (get data (ascii ''total'')) (JNum (ascii ''0'')),
              st_description = or_else (get data (ascii ''description'')) (JStr []),
              st_status = or_else (get data (ascii ''status'')) JNull\<rparr>\<rparr>))"

definition on_confirm :: "jsval \<Rightarrow> store \<Rightarrow> store" where
  "on_confirm data s = s\<lparr>pendingConfirm := data\<rparr>"

definition on_done :: "jsval \<Rightarrow> store \<Rightarrow> store" where
  "on_done data s = s\<lparr>pipelineDone := data, status := None\<rparr>"

definition on_error :: "nat \<Rightarrow> jsval \<Rightarrow> store \<Rightarrow> error + store" where
  "on_error now data s =
     (if nullish data then Inl TypeError
      else
        let msg = or_else (or_else (get data (ascii ''error'')) (get data (ascii ''msg'')))
                    (JStr text_unknown_error)
        in (case ToString msg of
              Inl e \<Rightarrow> Inl e
            | Inr m \<Rightarrow>
                Inr (addMessage now (JStr (ascii ''error'')) (JStr (text_error_prefix @ m))
                       JUndefined s)))"

subsection \<open>Exported operations\<close>

text \<open>\<^verbatim>\<open>connect()\<close> creates the socket once; the handlers above are registered on it, so an
  inbound event reaches a handler only when the socket exists.\<close>

definition connect :: "store \<Rightarrow> store" where
  "connect s = (if socket s \<noteq> None then s else s\<lparr>socket := Some []\<rparr>)"

definition emit :: "jstring \<Rightarrow> jsval \<Rightarrow> store \<Rightarrow> store" where
  "emit name payload s =
     s\<lparr>socket := (case socket s of None \<Rightarrow> None
                                | Some out \<Rightarrow> Some (out @ [Emit name payload]))\<rparr>"

definition sendInput :: "nat \<Rightarrow> jsval \<Rightarrow> store \<Rightarrow> store" where
  "sendInput now text s =
     (if socket s = None then s
      else emit (ascii ''agent:input'') (JObj [(ascii ''text'', text)])
             (addMessage now (JStr (ascii ''user'')) text JUndefined s))"

definition sendConfirm :: "jsval \<Rightarrow> jsval \<Rightarrow> store \<Rightarrow> store" where
  "sendConfirm data confirmed s =
     (if socket s = None then s
      else (emit (ascii ''agent:confirm_response'')
              (JObj [(ascii ''response'',
                      JStr (if truthy confirmed then ascii ''yes'' else ascii ''no''))]) s)
           \<lparr>pendingConfirm := JNull\<rparr>)"

definition sendCommand :: "jsval \<Rightarrow> jsval \<Rightarrow> store \<Rightarrow> store" where
  "sendCommand command data s =
     (if socket s = None then s
      else emit (ascii ''agent:command'')
             (JObj (spread [(ascii ''command'', command)] data)) s)"

definition clearMessages :: "store \<Rightarrow> store" where
  "clearMessages s = s\<lparr>messages := [], pipelineDone := JNull\<rparr>"

definition clearLogs :: "store \<Rightarrow> store" where
  "clearLogs s = s\<lparr>logs := []\<rparr>"

subsection \<open>Runs of the store\<close>

text \<open>
  An inbound event is the name the channel dispatches on and the first argument it passes
  (undefined when the event carries none).  A handler that throws has not written any cell
  yet: every throw of the module happens while the new value is still being computed.  So
  a delivery that throws leaves the store as it was, and the next event is processed.
\<close>

datatype event =
    EvConnect
  | EvDisconnect
  | EvMessage jsval
  | EvLog jsval
  | EvToolCall jsval
  | EvToolResult jsval
  | EvStatus jsval
  | EvConfirm jsval
  | EvDone jsval
  | EvError jsval

fun handle :: "nat \<Rightarrow> event \<Rightarrow> store \<Rightarrow> error + store" where
  "handle now EvConnect s = Inr (on_connect now s)"
| "handle now EvDisconnect s = Inr (on_disconnect now s)"
| "handle now (EvMessage data) s = on_message now data s"
| "handle now (EvLog data) s = on_log now data s"
| "handle now (EvToolCall data) s = on_tool_call now data s"
| "handle now (EvToolResult data) s = on_tool_result now data s"
| "handle now (EvStatus data) s = on_status data s"
| "handle now (EvConfirm data) s = Inr (on_confirm data s)"
| "handle now (EvDone data) s = Inr (on_done data s)"
| "handle now (EvError data) s = on_error now data s"

definition deliver :: "nat \<Rightarrow> event \<Rightarrow> store \<Rightarrow> store" where
  "deliver now ev s =
     (if socket s = None then s
      else (case handle now ev s of Inl e \<Rightarrow> s | Inr s' \<Rightarrow> s'))"

datatype op =
    Connect
  | Inbound nat event
  | SendInput nat jsval
  | SendConfirm jsval jsval
  | SendCommand jsval jsval
  | ClearMessages
  | ClearLogs

fun step :: "op \<Rightarrow> store \<Rightarrow> store" where
  "step Connect s = connect s"
| "step (Inbound now ev) s = deliver now ev s"
| "step (SendInput now text) s = sendInput now text s"
| "step (SendConfirm data confirmed) s = sendConfirm data confirmed s"
| "step (SendCommand command data) s = sendCommand command data s"
| "step ClearMessages s = clearMessages s"
| "step ClearLogs s = clearLogs s"

fun run :: "op list \<Rightarrow> store \<Rightarrow> store" where
  "run [] s = s"
| "run (x # xs) s = run xs (step x s)"

subsection \<open>Transport discipline\<close>

text \<open>
  The message handler does not look at the connection flag.  A run in which every message
  event is delivered while the flag is set (the channel hands over application events
  between its connect and disconnect notifications) is described by the predicate below.
\<close>

fun is_message :: "op \<Rightarrow> bool" where
  "is_message (Inbound now (EvMessage data)) = True"
| "is_message x = False"

fun messages_while_connected :: "op list \<Rightarrow> store \<Rightarrow> bool" where
  "messages_while_connected [] s = True"
| "messages_while_connected (x # xs) s =
     ((if is_message x then connected s else True) \<and> messages_while_connected xs (step x s))"

subsection \<open>The entries of the log trace\<close>

text \<open>The entry the log handler builds from the clock reading and the event data, and the
  run step that delivers one log event.\<close>

definition log_line :: "nat \<Rightarrow> jsval \<Rightarrow> log_entry" where
  "log_line now data =
     \<lparr>log_level = or_else (get data (ascii ''level'')) (JStr (ascii ''INFO'')),
      log_msg = or_else (or_else (get data (ascii ''message'')) (get data (ascii ''msg'')))
                  (JStr []),
      log_ts = now\<rparr>"

fun log_event :: "nat \<times> jsval \<Rightarrow> op" where
  "log_event (now, data) = Inbound now (EvLog data)"

section \<open>Basic facts\<close>

lemmas handler_defs = on_connect_def on_disconnect_def on_message_def on_log_def
  on_tool_call_def on_tool_result_def on_status_def on_confirm_def on_done_def on_error_def
  addMessage_def

lemmas op_defs = connect_def emit_def sendInput_def sendConfirm_def sendCommand_def
  clearMessages_def clearLogs_def deliver_def

lemma run_append: "run (xs @ ys) s = run ys (run xs s)"
  by (induction xs arbitrary: s) simp_all

lemma get_obj_not_nullish: "get d k = JObj ps \<Longrightarrow> \<not> nullish d"
  by (cases d) simp_all

text \<open>No handler and no operation ever sets \<^verbatim>\<open>_socket\<close> back to null.\<close>

lemma socket_handle: "handle now ev s = Inr s' \<Longrightarrow> socket s' = socket s"
  by (cases ev) (auto simp: handler_defs Let_def split: if_splits sum.splits)

lemma socket_step: "socket s \<noteq> None \<Longrightarrow> socket (step x s) \<noteq> None"
  by (cases x) (auto simp: op_defs addMessage_def split: sum.splits dest: socket_handle)

lemma socket_run: "socket s \<noteq> None \<Longrightarrow> socket (run xs s) \<noteq> None"
proof (induction xs arbitrary: s)
  case Nil
  then show ?case by simp
next
  case (Cons x xs)
  show ?case using Cons.IH[OF socket_step[OF Cons.prems]] by simp
qed

section \<open>The log trace\<close>

lemma on_log_logs:
  "\<not> nullish d \<Longrightarrow> \<exists>e s'. on_log now d s = Inr s' \<and> socket s' = socket s \<and>
      logs s' = drop (length (logs s) + 1 - 500) (logs s @ [e])"
  by (auto simp: on_log_def Let_def)

lemma deliver_log_length:
  assumes "socket s \<noteq> None" and "\<not> nullish d"
  shows "length (logs (deliver now (EvLog d) s)) = min 500 (length (logs s) + 1)"
proof -
  obtain e s' where "on_log now d s = Inr s'"
      "logs s' = drop (length (logs s) + 1 - 500) (logs s @ [e])"
    using on_log_logs[OF assms(2)] by blast
  with assms(1) show ?thesis by (auto simp: deliver_def)
qed

lemma replicate_log_length:
  assumes "socket s \<noteq> None" and "\<not> nullish d" and "length (logs s) \<le> 500"
  shows "length (logs (run (replicate n (Inbound now (EvLog d))) s))
           = min 500 (length (logs s) + n)"
  using assms
proof (induction n arbitrary: s)
  case 0
  then show ?case by simp
next
  case (Suc n)
  let ?s = "deliver now (EvLog d) s"
  have a: "socket ?s \<noteq> None"
    using socket_step[OF Suc.prems(1), of "Inbound now (EvLog d)"] by simp
  have b: "length (logs ?s) = min 500 (length (logs s) + 1)"
    by (rule deliver_log_length[OF Suc.prems(1,2)])
  have "length (logs (run (replicate n (Inbound now (EvLog d))) ?s))
          = min 500 (length (logs ?s) + n)"
    using Suc.IH[OF a Suc.prems(2)] b by simp
  with b show ?case by simp
qed

lemma deliver_log:
  assumes "socket s \<noteq> None" and "\<not> nullish d"
  shows "logs (deliver now (EvLog d) s)
           = drop (length (logs s) + 1 - 500) (logs s @ [log_line now d])"
  using assms by (auto simp: deliver_def on_log_def Let_def log_line_def)

lemma keep_last_snoc:
  fixes xs :: "'a list"
  shows "drop (length (drop (length xs - n) xs) + 1 - n) (drop (length xs - n) xs @ [x])
           = drop (length xs + 1 - n) (xs @ [x])"
proof (cases "length xs \<le> n")
  case True
  then show ?thesis by simp
next
  case False
  then have len: "length (drop (length xs - n) xs) = n"
    by simp
  have "drop (length (drop (length xs - n) xs) + 1 - n) (drop (length xs - n) xs @ [x])
          = drop 1 (drop (length xs - n) xs @ [x])"
    by (simp only: len) simp
  also have "\<dots> = drop 1 (drop (length xs - n) xs) @ drop (1 - n) [x]"
    using len by (simp only: drop_append)
  also have "\<dots> = drop (length xs + 1 - n) xs @ drop (1 - n) [x]"
  proof -
    have "Suc (length xs - n) = Suc (length xs) - n"
      using False by arith
    then show ?thesis by (simp add: add.commute)
  qed
  also have "\<dots> = drop (length xs + 1 - n) (xs @ [x])"
    using False by simp
  finally show ?thesis .
qed

text \<open>Under log events alone the trace is the last 500 entries received, in arrival
  order: the oldest entry goes first.\<close>

lemma log_events_keep_most_recent:
  assumes "socket s \<noteq> None" and "\<forall>e\<in>set evs. \<not> nullish (snd e)"
      and "length (logs s) \<le> 500"
  shows "logs (run (map log_event evs) s)
           = drop (length (logs s) + length evs - 500)
               (logs s @ map (\<lambda>e. log_line (fst e) (snd e)) evs)"
  using assms(2)
proof (induction evs rule: rev_induct)
  case Nil
  with assms(3) show ?case by simp
next
  case (snoc e evs)
  let ?s1 = "run (map log_event evs) s"
  let ?all = "logs s @ map (\<lambda>e. log_line (fst e) (snd e)) evs"
  have ih: "logs ?s1 = drop (length ?all - 500) ?all"
    using snoc by simp
  have sock: "socket ?s1 \<noteq> None"
    by (rule socket_run[OF assms(1)])
  have nn: "\<not> nullish (snd e)"
    using snoc.prems by simp
  have "logs (run (map log_event (evs @ [e])) s) = logs (deliver (fst e) (EvLog (snd e)) ?s1)"
    by (cases e) (simp add: run_append)
  also have "\<dots> = drop (length (logs ?s1) + 1 - 500) (logs ?s1 @ [log_line (fst e) (snd e)])"
    by (rule deliver_log[OF sock nn])
  also have "\<dots> = drop (length ?all + 1 - 500) (?all @ [log_line (fst e) (snd e)])"
    unfolding ih by (rule keep_last_snoc)
  finally show ?case by simp
qed

text \<open>
  Claim C1: for every sequence of log, tool_call and tool_result events the stored log never
  has more than 500 entries.  Only the log handler trims; the tool handlers append without
  a cap.  After \<^verbatim>\<open>connect()\<close>, 500 log events fill the trace and one tool_call event
  \<^verbatim>\<open>{tool: "run", args: "ls"}\<close> makes it 501 entries long.
\<close>

theorem tool_call_overflows_log_cap:
  "length (logs (run (Connect
                      # replicate 500 (Inbound 1 (EvLog (JObj [(ascii ''message'', JStr (ascii ''m''))])))
                      @ [Inbound 2 (EvToolCall (JObj [(ascii ''tool'', JStr (ascii ''run'')),
                                                      (ascii ''args'', JStr (ascii ''ls''))]))])
                init_store)) = 501"
proof -
  let ?d = "JObj [(ascii ''message'', JStr (ascii ''m''))]"
  let ?s0 = "connect init_store"
  let ?s1 = "run (replicate 500 (Inbound 1 (EvLog ?d))) ?s0"
  have s0: "socket ?s0 \<noteq> None" "length (logs ?s0) \<le> 500" "length (logs ?s0) = 0"
    by (simp_all add: connect_def init_store_def)
  have len: "length (logs ?s1) = 500"
    using replicate_log_length[OF s0(1) _ s0(2), of ?d 500 1] s0(3) by simp
  have sock: "socket ?s1 \<noteq> None"
    by (rule socket_run[OF s0(1)])
  have "length (logs (deliver 2 (EvToolCall (JObj [(ascii ''tool'', JStr (ascii ''run'')),
                                                   (ascii ''args'', JStr (ascii ''ls''))])) ?s1))
          = 501"
    using sock len by (auto simp: deliver_def on_tool_call_def render_args_def ascii_def)
  then show ?thesis by (simp add: run_append)
qed

section \<open>Outbound operations without a socket\<close>

text \<open>
  Claim C2, as amended: in every store state in which no socket has been created
  (\<^verbatim>\<open>connect()\<close> has not been called), \<^verbatim>\<open>sendInput\<close>, \<^verbatim>\<open>sendConfirm\<close> and \<^verbatim>\<open>sendCommand\<close>
  leave every cell unchanged and emit nothing.  The guard of the three operations is
  \<^verbatim>\<open>if (!_socket) return\<close>; it does not read the connection flag.
\<close>

theorem send_without_socket_is_noop:
  "socket s = None \<Longrightarrow>
     sendInput now text s = s \<and> sendConfirm data confirmed s = s
     \<and> sendCommand command extra s = s"
  by (simp add: sendInput_def sendConfirm_def sendCommand_def)

theorem send_without_socket_is_noop_witness:
  "socket init_store = None
   \<and> sendInput 1 (JStr (ascii ''hello'')) init_store = init_store
   \<and> sendConfirm JNull (JBool True) init_store = init_store
   \<and> sendCommand (JStr (ascii ''resume'')) (JObj []) init_store = init_store"
proof -
  have h: "socket init_store = None"
    by (simp add: init_store_def)
  show ?thesis
    using h send_without_socket_is_noop[OF h, of 1 "JStr (ascii ''hello'')" JNull "JBool True"
        "JStr (ascii ''resume'')" "JObj []"]
    by simp
qed

text \<open>
  Claim C2 as stated fails: after \<^verbatim>\<open>connect()\<close>, a connect event and a disconnect event
  the connection flag is false, and \<^verbatim>\<open>sendInput("hello")\<close> appends a third message and
  emits an input event on the socket.
\<close>

theorem send_while_disconnected_counterexample:
  "\<not> connected (run [Connect, Inbound 1 EvConnect, Inbound 2 EvDisconnect] init_store)
   \<and> sendInput 3 (JStr (ascii ''hello''))
         (run [Connect, Inbound 1 EvConnect, Inbound 2 EvDisconnect] init_store)
       \<noteq> run [Connect, Inbound 1 EvConnect, Inbound 2 EvDisconnect] init_store
   \<and> length (messages (run [Connect, Inbound 1 EvConnect, Inbound 2 EvDisconnect] init_store)) = 2
   \<and> length (messages (sendInput 3 (JStr (ascii ''hello''))
         (run [Connect, Inbound 1 EvConnect, Inbound 2 EvDisconnect] init_store))) = 3
   \<and> socket (sendInput 3 (JStr (ascii ''hello''))
         (run [Connect, Inbound 1 EvConnect, Inbound 2 EvDisconnect] init_store))
       = Some [Emit (ascii ''agent:input'') (JObj [(ascii ''text'', JStr (ascii ''hello''))])]"
  by (simp add: init_store_def op_defs handler_defs)

section \<open>Handlers that throw\<close>

text \<open>
  Claim C3: no inbound handler throws, whatever the payload.  The tool-call handler has no
  default for \<^verbatim>\<open>args\<close>: for the payload \<^verbatim>\<open>{tool: "read_file"}\<close> the call
  \<^verbatim>\<open>JSON.stringify(undefined)\<close> is undefined and \<^verbatim>\<open>.slice\<close> on it throws.  An event without
  payload throws in the tool-call and message handlers at the first property read.
\<close>

theorem tool_call_without_args_throws:
  "on_tool_call 1 (JObj [(ascii ''tool'', JStr (ascii ''read_file''))]) (connect init_store)
     = Inl TypeError
   \<and> on_tool_call 1 JUndefined (connect init_store) = Inl TypeError
   \<and> on_message 1 JUndefined (connect init_store) = Inl TypeError"
  by (simp add: on_tool_call_def on_message_def render_args_def ascii_def)

section \<open>Pending confirmation\<close>

lemma pending_step:
  "socket s = None \<longrightarrow> pendingConfirm s = JNull \<Longrightarrow>
     socket (step x s) = None \<longrightarrow> pendingConfirm (step x s) = JNull"
  by (cases x)
     (auto simp: op_defs addMessage_def split: sum.splits if_splits dest: socket_handle)

lemma pending_run:
  "socket s = None \<longrightarrow> pendingConfirm s = JNull \<Longrightarrow>
     socket (run xs s) = None \<longrightarrow> pendingConfirm (run xs s) = JNull"
proof (induction xs arbitrary: s)
  case Nil
  then show ?case by simp
next
  case (Cons x xs)
  show ?case using Cons.IH[OF pending_step[OF Cons.prems]] by simp
qed

lemma sendConfirm_clears: "socket s \<noteq> None \<Longrightarrow> pendingConfirm (sendConfirm r c s) = JNull"
  by (auto simp: sendConfirm_def emit_def)

text \<open>
  Claim C5: a confirm-request event replaces the pending confirmation whatever it was
  (the handler never throws, only that cell changes, and a second request overwrites the
  first), and resolving with either answer leaves the cell null: after a request received
  on a created socket and any further operations, and in every state reachable from the
  initial store.
\<close>

theorem confirm_last_write_wins:
  "on_confirm d s = s\<lparr>pendingConfirm := d\<rparr>
   \<and> pendingConfirm (on_confirm d' (on_confirm d s)) = d'
   \<and> pendingConfirm (sendConfirm r c (run xs (on_confirm d (connect s)))) = JNull
   \<and> pendingConfirm (sendConfirm r c (run xs init_store)) = JNull
   \<and> handle now (EvConfirm d) s = Inr (on_confirm d s)"
proof -
  have a: "socket (on_confirm d (connect s)) \<noteq> None"
    by (simp add: on_confirm_def connect_def)
  have b: "pendingConfirm (sendConfirm r c (run xs init_store)) = JNull"
  proof (cases "socket (run xs init_store) = None")
    case True
    have "pendingConfirm (run xs init_store) = JNull"
      using pending_run[of init_store xs] True by (simp add: init_store_def)
    with True show ?thesis by (simp add: sendConfirm_def)
  next
    case False
    then show ?thesis by (rule sendConfirm_clears)
  qed
  show ?thesis
    using sendConfirm_clears[OF socket_run[OF a]] b by (simp add: on_confirm_def)
qed

theorem confirm_last_write_wins_witness:
  "pendingConfirm (on_confirm (JObj [(ascii ''type'', JStr (ascii ''review''))])
                     (on_confirm (JObj [(ascii ''type'', JStr (ascii ''tool''))]) init_store))
     = JObj [(ascii ''type'', JStr (ascii ''review''))]
   \<and> pendingConfirm (sendConfirm JNull (JBool False)
        (run [] (on_confirm (JObj [(ascii ''type'', JStr (ascii ''review''))])
                   (connect init_store)))) = JNull"
  using confirm_last_write_wins[of "JObj [(ascii ''type'', JStr (ascii ''tool''))]" init_store
      "JObj [(ascii ''type'', JStr (ascii ''review''))]" JNull "JBool False" "[]"]
    confirm_last_write_wins[of "JObj [(ascii ''type'', JStr (ascii ''review''))]" init_store
      JNull JNull "JBool False" "[]"]
  unfolding run.simps by blast

section \<open>Tool-call log lines\<close>

text \<open>Every value but undefined has a rendering, and the rendering of a value that is not
  a string is at most 120 code units long.\<close>

lemma JSON_stringify_defined: "a \<noteq> JUndefined \<Longrightarrow> \<exists>j. JSON_stringify a = Some j"
  by (cases a) simp_all

lemma render_args_defined: "a \<noteq> JUndefined \<Longrightarrow> \<exists>r. render_args a = Inr r"
  using JSON_stringify_defined[of a] by (cases a) (auto simp: render_args_def)

lemma render_args_cut:
  "render_args a = Inr r \<Longrightarrow> \<forall>x. a \<noteq> JStr x \<Longrightarrow> length r \<le> 120"
  by (cases a) (auto simp: render_args_def split: option.splits)

lemma tool_call_appends_one_entry:
  assumes "\<not> nullish data" and "get data (ascii ''tool'') = JStr t"
      and "render_args (get data (ascii ''args'')) = Inr r"
  shows "on_tool_call now data s =
           Inr (s\<lparr>logs := logs s @
                  [\<lparr>log_level = JStr (ascii ''TOOL''),
                    log_msg = JStr (call_arrow @ t @ ascii ''  '' @ r),
                    log_ts = now\<rparr>]\<rparr>)"
  using assms by (simp add: on_tool_call_def)

text \<open>The scenario \<^verbatim>\<open>{tool: "read_file", args: {path: "a.py"}}\<close>.\<close>

lemma tool_call_read_file:
  "on_tool_call now
     (JObj [(ascii ''tool'', JStr (ascii ''read_file'')),
            (ascii ''args'', JObj [(ascii ''path'', JStr (ascii ''a.py''))])]) s
   = Inr (s\<lparr>logs := logs s @
            [\<lparr>log_level = JStr (ascii ''TOOL''),
              log_msg = JStr (call_arrow @ ascii ''read_file  {'' @ quote (ascii ''path'')
                                @ ascii '':'' @ quote (ascii ''a.py'') @ ascii ''}''),
              log_ts = now\<rparr>]\<rparr>)"
  by (simp add: on_tool_call_def render_args_def ascii_def quote_def escape_unit_def
        is_lead_def is_trail_def)

text \<open>The tool-result handler cuts every rendering, strings included.\<close>

lemma tool_result_renders_truncated:
  assumes "\<not> nullish data" and "ToString (get data (ascii ''tool'')) = Inr t"
      and "ToString (get data (ascii ''result'')) = Inr r"
  shows "on_tool_result now data s =
           Inr (s\<lparr>logs := logs s @
                  [\<lparr>log_level = JStr (ascii ''TOOL''),
                    log_msg = JStr (result_arrow @ t @ ascii ''  '' @ take 120 r),
                    log_ts = now\<rparr>]\<rparr>)"
  using assms by (simp add: on_tool_result_def)

text \<open>
  Claim C6: a tool_call event appends one TOOL entry whose text is the arrow, the tool name
  and the rendering of args cut to 120 characters.  The cut binds to the
  \<^verbatim>\<open>JSON.stringify\<close> branch of the conditional only: a string args is copied whole.  For
  \<^verbatim>\<open>{tool: "run", args: "aaa..."}\<close> with 121 letters the entry carries all 121.
\<close>

theorem tool_call_string_args_not_truncated:
  "deliver 1 (EvToolCall (JObj [(ascii ''tool'', JStr (ascii ''run'')),
                               (ascii ''args'', JStr (replicate 121 0x61))]))
       (connect init_store)
     = (connect init_store)
         \<lparr>logs := [\<lparr>log_level = JStr (ascii ''TOOL''),
                    log_msg = JStr (call_arrow @ ascii ''run'' @ ascii ''  '' @ replicate 121 0x61),
                    log_ts = 1\<rparr>]\<rparr>
   \<and> length (replicate 121 (0x61 :: 16 word)) = 121"
  by (simp add: deliver_def connect_def init_store_def on_tool_call_def render_args_def
        ascii_def)

section \<open>Workflow and project\<close>

text \<open>
  Claim C7: a message event with payload \<^verbatim>\<open>{workflow: "build", project: "projects/x"}\<close>
  sets the active workflow to "build" and the active project to "projects/x"; a following
  message event with payload \<^verbatim>\<open>{workflow: "chat"}\<close> sets the workflow to "chat" and leaves
  the project as it is.  The second half holds from any store state.
\<close>

theorem message_workflow_project:
  assumes d1: "get d1 (ascii ''payload'') =
                 JObj [(ascii ''workflow'', JStr (ascii ''build'')),
                       (ascii ''project'', JStr (ascii ''projects/x''))]"
      and d2: "get d2 (ascii ''payload'') = JObj [(ascii ''workflow'', JStr (ascii ''chat''))]"
  shows "(\<exists>s1. on_message n1 d1 s = Inr s1
            \<and> activeWorkflow s1 = JStr (ascii ''build'')
            \<and> activeProject s1 = JStr (ascii ''projects/x'')
            \<and> (\<exists>s2. on_message n2 d2 s1 = Inr s2
                   \<and> activeWorkflow s2 = JStr (ascii ''chat'')
                   \<and> activeProject s2 = JStr (ascii ''projects/x'')))
         \<and> (\<exists>s2. on_message n2 d2 s' = Inr s2
                \<and> activeWorkflow s2 = JStr (ascii ''chat'')
                \<and> activeProject s2 = activeProject s')"
proof -
  have n1: "\<not> nullish d1" and n2: "\<not> nullish d2"
    using d1 d2 by (auto dest: get_obj_not_nullish)
  have second: "\<exists>s2. on_message n2 d2 t = Inr s2
                \<and> activeWorkflow s2 = JStr (ascii ''chat'')
                \<and> activeProject s2 = activeProject t" for t
    using n2 d2 by (simp add: on_message_def or_else_def Let_def addMessage_def ascii_def)
  have first: "\<exists>s1. on_message n1 d1 s = Inr s1
            \<and> activeWorkflow s1 = JStr (ascii ''build'')
            \<and> activeProject s1 = JStr (ascii ''projects/x'')"
    using n1 d1 by (simp add: on_message_def or_else_def Let_def addMessage_def ascii_def)
  then obtain s1 where s1: "on_message n1 d1 s = Inr s1"
      "activeWorkflow s1 = JStr (ascii ''build'')"
      "activeProject s1 = JStr (ascii ''projects/x'')"
    by blast
  from second[of s1] s1 second[of s'] show ?thesis by auto
qed

theorem message_workflow_project_witness:
  "\<exists>s1. on_message 1
           (JObj [(ascii ''text'', JStr (ascii ''ok'')),
                  (ascii ''payload'', JObj [(ascii ''workflow'', JStr (ascii ''build'')),
                                            (ascii ''project'', JStr (ascii ''projects/x''))])])
           init_store = Inr s1
         \<and> activeWorkflow s1 = JStr (ascii ''build'')
         \<and> activeProject s1 = JStr (ascii ''projects/x'')
         \<and> (\<exists>s2. on_message 2
                    (JObj [(ascii ''payload'', JObj [(ascii ''workflow'', JStr (ascii ''chat''))])])
                    s1 = Inr s2
                \<and> activeWorkflow s2 = JStr (ascii ''chat'')
                \<and> activeProject s2 = JStr (ascii ''projects/x''))"
proof -
  have a: "get (JObj [(ascii ''text'', JStr (ascii ''ok'')),
                      (ascii ''payload'', JObj [(ascii ''workflow'', JStr (ascii ''build'')),
                                                (ascii ''project'', JStr (ascii ''projects/x''))])])
             (ascii ''payload'')
           = JObj [(ascii ''workflow'', JStr (ascii ''build'')),
                   (ascii ''project'', JStr (ascii ''projects/x''))]"
    by (simp add: ascii_def)
  have b: "get (JObj [(ascii ''payload'', JObj [(ascii ''workflow'', JStr (ascii ''chat''))])])
             (ascii ''payload'')
           = JObj [(ascii ''workflow'', JStr (ascii ''chat''))]"
    by simp
  show ?thesis
    using message_workflow_project[OF a b, of 1 init_store 2 init_store] by blast
qed

text \<open>
  Claim C10: a message event whose payload carries a workflow tag other than "chat" and no
  project field sets the active project to the empty string, whatever path was stored.
\<close>

theorem message_without_project_erases:
  assumes "get data (ascii ''payload'') = JObj ps"
      and "map_of ps (ascii ''workflow'') = Some w" and "truthy w"
      and "w \<noteq> JStr (ascii ''chat'')"
      and "map_of ps (ascii ''project'') = None"
  shows "\<exists>s'. on_message now data s = Inr s' \<and> activeWorkflow s' = w
              \<and> activeProject s' = JStr []"
  using assms get_obj_not_nullish[OF assms(1)]
  by (simp add: on_message_def or_else_def Let_def addMessage_def)

theorem message_without_project_erases_witness:
  "\<exists>s'. on_message 5
           (JObj [(ascii ''payload'', JObj [(ascii ''workflow'', JStr (ascii ''analyze''))])])
           (init_store\<lparr>activeProject := JStr (ascii ''projects/x'')\<rparr>) = Inr s'
         \<and> activeWorkflow s' = JStr (ascii ''analyze'') \<and> activeProject s' = JStr []"
  using message_without_project_erases[of
      "JObj [(ascii ''payload'', JObj [(ascii ''workflow'', JStr (ascii ''analyze''))])]"
      "[(ascii ''workflow'', JStr (ascii ''analyze''))]" "JStr (ascii ''analyze'')" 5
      "init_store\<lparr>activeProject := JStr (ascii ''projects/x'')\<rparr>"]
  by (simp add: ascii_def)

section \<open>Message ids\<close>


















section \<open>Connection flag and active workflow\<close>

lemma handle_connected_workflow:
  assumes "handle now ev s = Inr s'" and "connected s \<or> activeWorkflow s = JNull"
      and "(\<exists>d. ev = EvMessage d) \<longrightarrow> connected s"
  shows "connected s' \<or> activeWorkflow s' = JNull"
  using assms
  by (cases ev) (auto simp: handler_defs Let_def split: if_splits sum.splits)

lemma step_connected_workflow:
  assumes "connected s \<or> activeWorkflow s = JNull"
      and "if is_message x then connected s else True"
  shows "connected (step x s) \<or> activeWorkflow (step x s) = JNull"
proof (cases x)
  case (Inbound now ev)
  have m: "(\<exists>d. ev = EvMessage d) \<longrightarrow> connected s"
    using assms(2) Inbound by auto
  show ?thesis
  proof (cases "handle now ev s")
    case (Inl e)
    with Inbound assms(1) show ?thesis by (simp add: deliver_def)
  next
    case (Inr s')
    from handle_connected_workflow[OF Inr assms(1) m] Inbound Inr assms(1)
    show ?thesis by (simp add: deliver_def)
  qed
qed (use assms(1) in \<open>auto simp: op_defs addMessage_def\<close>)

lemma run_connected_workflow:
  assumes "connected s \<or> activeWorkflow s = JNull" and "messages_while_connected xs s"
  shows "connected (run xs s) \<or> activeWorkflow (run xs s) = JNull"
  using assms
proof (induction xs arbitrary: s)
  case Nil
  then show ?case by simp
next
  case (Cons x xs)
  from Cons.prems(2) have a: "if is_message x then connected s else True"
    and b: "messages_while_connected xs (step x s)"
    by simp_all
  show ?case
    using Cons.IH[OF step_connected_workflow[OF Cons.prems(1) a] b] by simp
qed

text \<open>
  Claim C8, as amended: the disconnect handler never throws and leaves the connection flag
  false and the active workflow null, whatever they were; and in every state reached from
  the initial store by a run that delivers message events only while the connection flag
  is set, a false flag implies a null active workflow.
\<close>

theorem disconnect_clears_workflow:
  "activeWorkflow (on_disconnect now s) = JNull \<and> \<not> connected (on_disconnect now s)
   \<and> handle now EvDisconnect s = Inr (on_disconnect now s)
   \<and> (messages_while_connected xs init_store \<longrightarrow> \<not> connected (run xs init_store)
        \<longrightarrow> activeWorkflow (run xs init_store) = JNull)"
proof -
  have "connected init_store \<or> activeWorkflow init_store = JNull"
    by (simp add: init_store_def)
  from run_connected_workflow[OF this, of xs]
  show ?thesis by (auto simp: on_disconnect_def addMessage_def)
qed

theorem disconnect_clears_workflow_witness:
  "messages_while_connected
     [Connect, Inbound 1 EvConnect,
      Inbound 2 (EvMessage (JObj [(ascii ''payload'',
                                   JObj [(ascii ''workflow'', JStr (ascii ''build''))])])),
      Inbound 3 EvDisconnect] init_store
   \<and> \<not> connected (run
        [Connect, Inbound 1 EvConnect,
         Inbound 2 (EvMessage (JObj [(ascii ''payload'',
                                      JObj [(ascii ''workflow'', JStr (ascii ''build''))])])),
         Inbound 3 EvDisconnect] init_store)
   \<and> activeWorkflow (run
        [Connect, Inbound 1 EvConnect,
         Inbound 2 (EvMessage (JObj [(ascii ''payload'',
                                      JObj [(ascii ''workflow'', JStr (ascii ''build''))])])),
         Inbound 3 EvDisconnect] init_store) = JNull
   \<and> activeWorkflow (run
        [Connect, Inbound 1 EvConnect,
         Inbound 2 (EvMessage (JObj [(ascii ''payload'',
                                      JObj [(ascii ''workflow'', JStr (ascii ''build''))])]))]
        init_store) = JStr (ascii ''build'')"
proof -
  let ?xs = "[Connect, Inbound 1 EvConnect,
      Inbound 2 (EvMessage (JObj [(ascii ''payload'',
                                   JObj [(ascii ''workflow'', JStr (ascii ''build''))])])),
      Inbound 3 EvDisconnect]"
  have a: "messages_while_connected ?xs init_store"
    by (simp add: init_store_def op_defs handler_defs or_else_def ascii_def Let_def)
  have b: "\<not> connected (run ?xs init_store)"
    by (simp add: init_store_def op_defs handler_defs or_else_def ascii_def Let_def)
  have c: "activeWorkflow (run
        [Connect, Inbound 1 EvConnect,
         Inbound 2 (EvMessage (JObj [(ascii ''payload'',
                                      JObj [(ascii ''workflow'', JStr (ascii ''build''))])]))]
        init_store) = JStr (ascii ''build'')"
    by (simp add: init_store_def op_defs handler_defs or_else_def ascii_def Let_def)
  from disconnect_clears_workflow[of 0 init_store ?xs] a b c show ?thesis by blast
qed

text \<open>
  Claim C8 as stated fails in its second half: the message handler sets the active workflow
  without reading the connection flag.  After \<^verbatim>\<open>connect()\<close> a message event with payload
  \<^verbatim>\<open>{workflow: "build"}\<close> that is delivered before any connect event leaves the flag false
  and the active workflow "build".
\<close>

theorem workflow_without_connection_counterexample:
  "\<not> connected (run
        [Connect,
         Inbound 1 (EvMessage (JObj [(ascii ''payload'',
                                      JObj [(ascii ''workflow'', JStr (ascii ''build''))])]))]
        init_store)
   \<and> activeWorkflow (run
        [Connect,
         Inbound 1 (EvMessage (JObj [(ascii ''payload'',
                                      JObj [(ascii ''workflow'', JStr (ascii ''build''))])]))]
        init_store) = JStr (ascii ''build'')"
  by (simp add: init_store_def op_defs handler_defs or_else_def ascii_def Let_def)

section \<open>Completion\<close>

text \<open>
  Claim C9: the done handler never throws, stores the record it received in the
  pipeline-done cell and sets the status snapshot to absent, whatever the snapshot was.
\<close>

theorem done_sets_result_and_clears_status:
  "handle now (EvDone d) s = Inr (on_done d s) \<and> pipelineDone (on_done d s) = d
   \<and> status (on_done d s) = None"
  by (simp add: on_done_def)

end
